theory Spec2Isabelle
  imports Complex_Main "HOL-Library.Sublist"
begin

section \<open>Data model of the calculator component\<close>

text \<open>
  The component \<open>CoinChangeCalculator\<close> keeps eight state variables (one of them, the
  catalog \<open>validDenominations\<close>, is never written). Its handlers are embedded as functions
  from the state to the new state. An \<open>async\<close> handler is split at its \<open>await fetch\<close>: the
  part that runs before the request is sent, and the part that runs once the request has
  settled.

  Numbers. A denomination is a finite JavaScript number (the selector offers the entries
  of the catalog); it is modelled by the rational it denotes, and the comparator \<open>(a, b) => a - b\<close> orders finite numbers as \<open>\<le>\<close> orders
  rationals. The value of \<open>parseFloat\<close> may also be \<open>NaN\<close> or an infinity, so the parsed
  amount has a type of its own. The counts of a response are integers.
\<close>

datatype number = NaN | NegInfinity | Finite rat | Infinity

text \<open>The JavaScript comparison \<open>a < b\<close>; \<open>a > b\<close> is \<open>lt b a\<close>. Every comparison with \<open>NaN\<close> is false.\<close>

fun lt :: "number \<Rightarrow> number \<Rightarrow> bool" where
  "lt NaN b = False"
| "lt a NaN = False"
| "lt a NegInfinity = False"
| "lt NegInfinity b = True"
| "lt Infinity b = False"
| "lt (Finite x) Infinity = True"
| "lt (Finite x) (Finite y) = (x < y)"

definition isNaN :: "number \<Rightarrow> bool" where
  "isNaN n = (n = NaN)"

record CoinInfo =
  denomination :: rat
  count :: int

record CCResponse =
  coins :: "CoinInfo list"
  totalCoins :: int

text \<open>
  The value of \<open>await response.json()\<close>. The source casts it (\<open>data as ErrorResponse\<close>,
  \<open>data as CCResponse\<close>) and never inspects its shape, so one type holds the shapes a body may
  have: \<open>null\<close>, an object with the optional string fields \<open>error\<close> and \<open>message\<close>
  (\<open>None\<close> is an absent field), or an object with \<open>coins\<close> and \<open>totalCoins\<close>. The state
  variable \<open>result\<close> holds such a value too, \<open>null\<close> at first.
\<close>

datatype data =
  Null
  | ErrorResponse "string option" "string option"
  | Result CCResponse

text \<open>The request object: \<open>amount\<close>, then \<open>denominations\<close>.\<close>

datatype CCRequest = CCRequest number "rat list"

datatype connection = Checking | Connected | Disconnected

record state =
  amount :: string
  selectedDenominations :: "rat list"
  result :: data
  error :: string
  loading :: bool
  apiUrl :: string
  connectionStatus :: connection

definition validDenominations :: "rat list" where
  "validDenominations =
     [0.01, 0.05, 0.10, 0.20, 0.50, 1.00, 2.00, 5.00, 10.00, 50.00, 100.00, 1000.00]"

text \<open>The state of the first render; \<open>url\<close> is the configured default of \<open>apiUrl\<close>.\<close>

definition initial :: "string \<Rightarrow> state" where
  "initial url =
     \<lparr>amount = '''', selectedDenominations = [], result = Null, error = '''',
      loading = False, apiUrl = url, connectionStatus = Checking\<rparr>"

section \<open>Denomination selector and form reset\<close>

definition handleDenominationChange :: "rat \<Rightarrow> bool \<Rightarrow> state \<Rightarrow> state" where
  "handleDenominationChange d checked s =
     (if checked
      then s\<lparr>selectedDenominations := sort (selectedDenominations s @ [d])\<rparr>
      else s\<lparr>selectedDenominations := filter (\<lambda>x. x \<noteq> d) (selectedDenominations s)\<rparr>)"

definition selectAllDenominations :: "state \<Rightarrow> state" where
  "selectAllDenominations s = s\<lparr>selectedDenominations := validDenominations\<rparr>"

definition clearAllDenominations :: "state \<Rightarrow> state" where
  "clearAllDenominations s = s\<lparr>selectedDenominations := []\<rparr>"

definition clearForm :: "state \<Rightarrow> state" where
  "clearForm s = s\<lparr>amount := '''', selectedDenominations := [], result := Null, error := ''''\<rparr>"

text \<open>The four operations the selector offers, and a run of them from a state.\<close>

datatype selector_op = AddOne rat | RemoveOne rat | SelectAll | ClearAll

fun selector :: "selector_op \<Rightarrow> state \<Rightarrow> state" where
  "selector (AddOne d) s = handleDenominationChange d True s"
| "selector (RemoveOne d) s = handleDenominationChange d False s"
| "selector SelectAll s = selectAllDenominations s"
| "selector ClearAll s = clearAllDenominations s"

fun selector_run :: "selector_op list \<Rightarrow> state \<Rightarrow> state" where
  "selector_run [] s = s"
| "selector_run (x # xs) s = selector_run xs (selector x s)"


section \<open>Network outcomes\<close>

text \<open>
  A \<open>fetch\<close> call either resolves with a response or rejects with an error object, of which
  the handlers read \<open>name\<close> and \<open>message\<close> (in this order below). Of a response they read
  \<open>ok\<close>, which the Fetch standard defines as a status from 200 to 299, and the value of
  \<open>response.json()\<close>; \<open>body = None\<close> is a body that is not JSON, for which \<open>json()\<close> rejects
  with a \<open>SyntaxError\<close>.
\<close>

datatype js_error = Error string string

record response =
  status :: nat
  body :: "data option"

definition ok :: "response \<Rightarrow> bool" where
  "ok r = (200 \<le> status r \<and> status r \<le> 299)"

datatype outcome = Resolved response | Rejected js_error

text \<open>The calls the component sends: the URL, and the request object of a POST.\<close>

datatype fetch = GET string | POST string CCRequest

text \<open>\<open>s.includes(t)\<close>: \<open>t\<close> occurs in \<open>s\<close> as a contiguous run of characters.\<close>

definition str_includes :: "string \<Rightarrow> string \<Rightarrow> bool" where
  "str_includes s t = sublist t s"

section \<open>Health probe\<close>

definition checkApiHealth_start :: "state \<Rightarrow> state \<times> fetch" where
  "checkApiHealth_start s =
     (s\<lparr>connectionStatus := Checking\<rparr>, GET (apiUrl s @ ''/api/v1/coin-change/health''))"

fun checkApiHealth_settle :: "outcome \<Rightarrow> state \<Rightarrow> state" where
  "checkApiHealth_settle (Resolved r) s =
     (if \<not> ok r
      then s\<lparr>error := ''API is not responding. Please check if the server is running on the correct port.'',
             connectionStatus := Disconnected\<rparr>
      else s\<lparr>error := '''', connectionStatus := Connected\<rparr>)"
| "checkApiHealth_settle (Rejected (Error name message)) s =
     (if name = ''TypeError'' \<and> str_includes message ''Failed to fetch''
      then s\<lparr>error := ''CORS Error: Unable to connect to API. Please ensure CORS is configured on your server and it'' @ [CHR 0x27] @ ''s running on the correct port.'',
             connectionStatus := Disconnected\<rparr>
      else s\<lparr>error := ''Unable to connect to API. Please check if the server is running.'',
             connectionStatus := Disconnected\<rparr>)"

text \<open>The whole probe when nothing else happens while the request is in flight.\<close>

definition checkApiHealth :: "outcome \<Rightarrow> state \<Rightarrow> state" where
  "checkApiHealth out s = checkApiHealth_settle out (fst (checkApiHealth_start s))"

section \<open>Calculate action\<close>

text \<open>
  \<open>parseFloat\<close> is a built-in of the platform; the handler takes it as a parameter, and
  everything proved about the handler holds for every such function. The first part of
  \<open>calculateCoins\<close> returns the new state and the call it sends, if it sends one.
\<close>

definition calculateCoins_start :: "(string \<Rightarrow> number) \<Rightarrow> state \<Rightarrow> state \<times> fetch option" where
  "calculateCoins_start parseFloat s =
     (if amount s = '''' \<or> length (selectedDenominations s) = 0
      then (s\<lparr>error := ''Please enter an amount and select at least one denomination.''\<rparr>, None)
      else
        let amountNum = parseFloat (amount s) in
        if isNaN amountNum \<or> lt amountNum (Finite 0) \<or> lt (Finite 10000) amountNum
        then (s\<lparr>error := ''Please enter a valid amount between 0 and 10000.''\<rparr>, None)
        else (s\<lparr>loading := True, error := '''', result := Null\<rparr>,
              Some (POST (apiUrl s @ ''/api/v1/coin-change/calculate'')
                         (CCRequest amountNum (selectedDenominations s)))))"

text \<open>
  \<open>errorData.message\<close>: reading a property of \<open>null\<close> throws a \<open>TypeError\<close> (its message is the
  engine's own and does not mention \<open>Failed to fetch\<close>); an object without the field gives
  \<open>undefined\<close>.
\<close>

fun read_message :: "data \<Rightarrow> js_error + string option" where
  "read_message Null = Inl (Error ''TypeError'' ''Cannot read properties of null'')"
| "read_message (ErrorResponse e m) = Inr m"
| "read_message (Result r) = Inr None"

text \<open>\<open>m || fallback\<close>: \<open>undefined\<close> and the empty string are falsy.\<close>

fun or_else :: "string option \<Rightarrow> string \<Rightarrow> string" where
  "or_else None fallback = fallback"
| "or_else (Some m) fallback = (if m = '''' then fallback else m)"

text \<open>
  The \<open>try\<close> block from the point where \<open>fetch\<close> has settled: the state, or what is thrown.
  The text of the \<open>SyntaxError\<close> of \<open>json()\<close> is the engine's own as well; the \<open>catch\<close>
  block looks at the text of a \<open>TypeError\<close> only.
\<close>

fun calculateCoins_try :: "outcome \<Rightarrow> state \<Rightarrow> js_error + state" where
  "calculateCoins_try (Rejected e) s = Inl e"
| "calculateCoins_try (Resolved r) s =
     (case body r of
        None \<Rightarrow> Inl (Error ''SyntaxError'' ''Unexpected token'')
      | Some d \<Rightarrow>
          if \<not> ok r
          then (case read_message d of
                  Inl e \<Rightarrow> Inl e
                | Inr m \<Rightarrow> Inr (s\<lparr>error := or_else m ''An error occurred while calculating.''\<rparr>))
          else Inr (s\<lparr>result := d\<rparr>))"

fun calculateCoins_catch :: "js_error \<Rightarrow> state \<Rightarrow> state" where
  "calculateCoins_catch (Error name message) s =
     (if name = ''TypeError'' \<and> str_includes message ''Failed to fetch''
      then s\<lparr>error := ''CORS Error: Unable to connect to API. Please ensure CORS is configured on your server.''\<rparr>
      else s\<lparr>error := ''Failed to connect to the API. Please check if the server is running.''\<rparr>)"

definition calculateCoins_settle :: "outcome \<Rightarrow> state \<Rightarrow> state" where
  "calculateCoins_settle out s =
     (case calculateCoins_try out s of
        Inl e \<Rightarrow> calculateCoins_catch e s
      | Inr s' \<Rightarrow> s')\<lparr>loading := False\<rparr>"

text \<open>
  The whole handler when nothing else happens while the request is in flight; \<open>out\<close> is
  not looked at when no request is sent.
\<close>

definition calculateCoins :: "(string \<Rightarrow> number) \<Rightarrow> outcome \<Rightarrow> state \<Rightarrow> state" where
  "calculateCoins parseFloat out s =
     (case calculateCoins_start parseFloat s of
        (s', None) \<Rightarrow> s'
      | (s', Some call) \<Rightarrow> calculateCoins_settle out s')"

section \<open>Rendering\<close>

text \<open>
  What the markup shows of the state. Of \<open>ResultDisplay\<close> the model keeps the total and,
  for each entry of \<open>coins\<close>, the classes of the coin face, the formatted denomination, the
  count with its unit, the number of stacked coins and whether the overflow badge is there.
  Two texts are left out because they are results of floating-point arithmetic: the label
  printed on the face (\<open>getCoinText\<close>, which rounds a product) and the number in the badge
  (the difference \<open>coin.count - 5\<close>). The comparisons and \<open>Math.min\<close> are exact.
  \<open>formatCurrency\<close> is the property of that name, an \<open>Intl.NumberFormat\<close> of the platform.
\<close>

definition getCoinColor :: "rat \<Rightarrow> string" where
  "getCoinColor v =
     (if v \<ge> 100 then ''from-green-400 to-green-600''
      else if v \<ge> 50 then ''from-purple-400 to-purple-600''
      else if v \<ge> 10 then ''from-blue-400 to-blue-600''
      else if v \<ge> 5 then ''from-red-400 to-red-600''
      else if v \<ge> 1 then ''from-yellow-400 to-yellow-600''
      else if v \<ge> 0.50 then ''from-gray-300 to-gray-500''
      else if v \<ge> 0.10 then ''from-orange-300 to-orange-500''
      else ''from-amber-300 to-amber-500'')"

definition getCoinSize :: "rat \<Rightarrow> string" where
  "getCoinSize v =
     (if v \<ge> 100 then ''w-12 h-8''
      else if v \<ge> 50 then ''w-10 h-10''
      else if v \<ge> 10 then ''w-9 h-9''
      else if v \<ge> 1 then ''w-8 h-8''
      else ''w-7 h-7'')"

record row =
  face_size :: string
  face_color :: string
  face_shape :: string
  value_text :: string
  count_shown :: int
  unit_text :: string
  stacked :: nat
  overflow_badge :: bool

record result_view =
  total :: int
  rows :: "row list"

definition coin_row :: "(rat \<Rightarrow> string) \<Rightarrow> CoinInfo \<Rightarrow> row" where
  "coin_row formatCurrency coin =
     (let isLargeDenomination = (denomination coin \<ge> 100) in
      \<lparr>face_size = getCoinSize (denomination coin),
       face_color = getCoinColor (denomination coin),
       face_shape = (if isLargeDenomination then ''rounded-md'' else ''rounded-full''),
       value_text = formatCurrency (denomination coin),
       count_shown = count coin,
       unit_text = (if count coin = 1 then ''coin'' else ''coins''),
       stacked = nat (min (count coin) 5),
       overflow_badge = (count coin > 5)\<rparr>)"

text \<open>
  \<open>ResultDisplay\<close> reads \<open>result.totalCoins\<close> and maps over \<open>result.coins\<close>; on a value
  without \<open>coins\<close> the call of \<open>map\<close> throws, and on \<open>null\<close> (with which the component
  never calls it) the first read does.
\<close>

fun ResultDisplay :: "(rat \<Rightarrow> string) \<Rightarrow> data \<Rightarrow> js_error + result_view" where
  "ResultDisplay formatCurrency (Result r) =
     Inr \<lparr>total = totalCoins r, rows = map (coin_row formatCurrency) (coins r)\<rparr>"
| "ResultDisplay formatCurrency (ErrorResponse e m) =
     Inl (Error ''TypeError'' ''Cannot read properties of undefined'')"
| "ResultDisplay formatCurrency Null =
     Inl (Error ''TypeError'' ''Cannot read properties of null'')"

definition getConnectionStatusText :: "state \<Rightarrow> string" where
  "getConnectionStatusText s =
     (case connectionStatus s of
        Connected \<Rightarrow> ''Connected''
      | Disconnected \<Rightarrow> ''Disconnected''
      | Checking \<Rightarrow> ''Checking...'')"

text \<open>The \<open>disabled\<close> attribute of the button that calls \<open>calculateCoins\<close>.\<close>

definition disabled :: "state \<Rightarrow> bool" where
  "disabled s = (loading s \<or> connectionStatus s = Disconnected)"

record view =
  status_text :: string
  calculate_disabled :: bool
  error_box :: "string option"
  result_box :: "(js_error + result_view) option"

text \<open>\<open>error && ...\<close> and \<open>result && ...\<close>: the empty string and \<open>null\<close> are falsy, every object is truthy.\<close>

definition render :: "(rat \<Rightarrow> string) \<Rightarrow> state \<Rightarrow> view" where
  "render formatCurrency s =
     \<lparr>status_text = getConnectionStatusText s,
      calculate_disabled = disabled s,
      error_box = (if error s = '''' then None else Some (error s)),
      result_box = (case result s of
                      Null \<Rightarrow> None
                    | d \<Rightarrow> Some (ResultDisplay formatCurrency d))\<rparr>"

section \<open>The component as an event system\<close>

text \<open>
  The state together with the bookkeeping of the network: every call sent so far (latest
  first) and how many requests of each kind have been sent and have not settled yet.
  An event is a user action or the settling of a request. \<open>step\<close> gives the world after an
  event, and \<open>None\<close> for an event that cannot happen: a click on the disabled button, or the
  settling of a request that is not in flight.
\<close>

record world =
  ui :: state
  sent :: "fetch list"
  calculate_pending :: nat
  health_pending :: nat

datatype event =
  AmountInput string
  | UrlInput string
  | Toggle rat bool
  | ClickSelectAll
  | ClickClearAll
  | ClickCalculate
  | ClickClear
  | ClickRefresh
  | HealthSettled outcome
  | CalculateSettled outcome

text \<open>A call of \<open>checkApiHealth\<close>, up to the point where the request is sent.\<close>

definition probe :: "world \<Rightarrow> world" where
  "probe w =
     (case checkApiHealth_start (ui w) of
        (s', call) \<Rightarrow>
          w\<lparr>ui := s', sent := call # sent w, health_pending := Suc (health_pending w)\<rparr>)"

text \<open>The first render and its effect, which runs \<open>checkApiHealth\<close> once.\<close>

definition mount :: "string \<Rightarrow> world" where
  "mount url = probe \<lparr>ui = initial url, sent = [], calculate_pending = 0, health_pending = 0\<rparr>"

text \<open>
  The effect depends on \<open>apiUrl\<close>: it runs again after \<open>setApiUrl\<close> when the value differs
  from the one before, and not when the same value is set.
\<close>

fun step :: "(string \<Rightarrow> number) \<Rightarrow> event \<Rightarrow> world \<Rightarrow> world option" where
  "step parseFloat (AmountInput v) w = Some (w\<lparr>ui := (ui w)\<lparr>amount := v\<rparr>\<rparr>)"
| "step parseFloat (UrlInput v) w =
     (if v = apiUrl (ui w) then Some w
      else Some (probe (w\<lparr>ui := (ui w)\<lparr>apiUrl := v\<rparr>\<rparr>)))"
| "step parseFloat (Toggle d checked) w = Some (w\<lparr>ui := handleDenominationChange d checked (ui w)\<rparr>)"
| "step parseFloat ClickSelectAll w = Some (w\<lparr>ui := selectAllDenominations (ui w)\<rparr>)"
| "step parseFloat ClickClearAll w = Some (w\<lparr>ui := clearAllDenominations (ui w)\<rparr>)"
| "step parseFloat ClickCalculate w =
     (if disabled (ui w) then None
      else (case calculateCoins_start parseFloat (ui w) of
              (s', None) \<Rightarrow> Some (w\<lparr>ui := s'\<rparr>)
            | (s', Some call) \<Rightarrow>
                Some (w\<lparr>ui := s', sent := call # sent w,
                        calculate_pending := Suc (calculate_pending w)\<rparr>)))"
| "step parseFloat ClickClear w = Some (w\<lparr>ui := clearForm (ui w)\<rparr>)"
| "step parseFloat ClickRefresh w = Some (probe w)"
| "step parseFloat (HealthSettled out) w =
     (if health_pending w = 0 then None
      else Some (w\<lparr>ui := checkApiHealth_settle out (ui w),
                   health_pending := health_pending w - 1\<rparr>))"
| "step parseFloat (CalculateSettled out) w =
     (if calculate_pending w = 0 then None
      else Some (w\<lparr>ui := calculateCoins_settle out (ui w),
                   calculate_pending := calculate_pending w - 1\<rparr>))"

fun run :: "(string \<Rightarrow> number) \<Rightarrow> event list \<Rightarrow> world \<Rightarrow> world option" where
  "run parseFloat [] w = Some w"
| "run parseFloat (e # es) w =
     (case step parseFloat e w of
        None \<Rightarrow> None
      | Some w' \<Rightarrow> run parseFloat es w')"

text \<open>The events that settle a health probe.\<close>

fun settles_health :: "event \<Rightarrow> bool" where
  "settles_health (HealthSettled out) = True"
| "settles_health e = False"



section \<open>Local validation\<close>

text \<open>
  C1. When the amount text is empty, or parses to \<open>NaN\<close>, to a number below 0 or to a number
  above 10000, or when no denomination is selected, \<open>calculateCoins\<close> sends no request: its
  first part returns no call, the whole handler ends in the state of the first part
  whatever the network would have answered, a click on the enabled button leaves the list
  of sent calls as it was, and the error message is not empty and is shown.
\<close>

theorem calculate_rejects_invalid_input:
  assumes "amount s = '''' \<or> isNaN (parseFloat (amount s))
           \<or> lt (parseFloat (amount s)) (Finite 0)
           \<or> lt (Finite 10000) (parseFloat (amount s)) \<or> selectedDenominations s = []"
  shows "snd (calculateCoins_start parseFloat s) = None \<and>
         calculateCoins parseFloat out s = fst (calculateCoins_start parseFloat s) \<and>
         error (calculateCoins parseFloat out s) \<noteq> '''' \<and>
         error_box (render formatCurrency (calculateCoins parseFloat out s))
           = Some (error (calculateCoins parseFloat out s)) \<and>
         (ui w = s \<and> \<not> disabled s \<longrightarrow>
            step parseFloat ClickCalculate w
              = Some (w\<lparr>ui := fst (calculateCoins_start parseFloat s)\<rparr>))"
  using assms
  by (auto simp add: calculateCoins_start_def calculateCoins_def render_def Let_def)

theorem calculate_rejects_invalid_input_witness:
  "lt ((\<lambda>t. if t = ''-5'' then Finite (- 5) else NaN) ''-5'') (Finite 0) \<and>
   snd (calculateCoins_start (\<lambda>t. if t = ''-5'' then Finite (- 5) else NaN)
          ((initial ''http://localhost:8080'')\<lparr>amount := ''-5'', selectedDenominations := [1]\<rparr>))
     = None \<and>
   error (calculateCoins (\<lambda>t. if t = ''-5'' then Finite (- 5) else NaN)
          (Resolved \<lparr>status = 200, body = None\<rparr>)
          ((initial ''http://localhost:8080'')\<lparr>amount := ''-5'', selectedDenominations := [1]\<rparr>))
     = ''Please enter a valid amount between 0 and 10000.''"
  using calculate_rejects_invalid_input
    [of "(initial ''http://localhost:8080'')\<lparr>amount := ''-5'', selectedDenominations := [1]\<rparr>"
        "\<lambda>t. if t = ''-5'' then Finite (- 5) else NaN"
        "Resolved \<lparr>status = 200, body = None\<rparr>"]
  by (simp add: calculateCoins_start_def calculateCoins_def initial_def isNaN_def)

section \<open>Denomination selector\<close>






lemma sorted_validDenominations: "sorted validDenominations"
  by (simp add: validDenominations_def)

lemma selector_sorted:
  "sorted (selectedDenominations s) \<Longrightarrow> sorted (selectedDenominations (selector x s))"
  by (cases x)
     (simp_all add: handleDenominationChange_def selectAllDenominations_def
        clearAllDenominations_def sorted_validDenominations sorted_wrt_filter)

lemma selector_run_sorted:
  "sorted (selectedDenominations s) \<Longrightarrow> sorted (selectedDenominations (selector_run xs s))"
  by (induction xs arbitrary: s) (simp_all add: selector_sorted)

text \<open>
  C3. After every sequence of add-one, remove-one, select-all and clear-all operations that
  starts from the empty selection of the first render, the selected list is in ascending
  order (equal neighbours allowed).
\<close>

theorem selection_ascending:
  "sorted (selectedDenominations (selector_run xs (initial url)))"
  by (rule selector_run_sorted) (simp add: initial_def)

section \<open>Form reset\<close>

text \<open>
  C9. \<open>clearForm\<close> empties the amount text, the selected list and the error, sets the result
  to \<open>null\<close>, and leaves the base URL, the connection state and the loading flag as they
  were.
\<close>

theorem clearForm_frame:
  "amount (clearForm s) = '''' \<and> selectedDenominations (clearForm s) = [] \<and>
   result (clearForm s) = Null \<and> error (clearForm s) = '''' \<and>
   apiUrl (clearForm s) = apiUrl s \<and> connectionStatus (clearForm s) = connectionStatus s \<and>
   loading (clearForm s) = loading s"
  by (simp add: clearForm_def)

section \<open>Health probe outcomes\<close>

text \<open>
  C4. A probe first sets the connection state to checking. A response with a status from
  200 to 299 sets it to connected and empties the error. A response with any other status
  sets it to disconnected, which disables the calculate button, and sets the error to the
  text for a server that does not respond. A rejected request sets it to disconnected too,
  with an error that is not empty and differs from the text for a response with another
  status.
\<close>

theorem health_probe_outcomes:
  "connectionStatus (fst (checkApiHealth_start s)) = Checking \<and>
   (200 \<le> status r \<and> status r \<le> 299 \<longrightarrow>
      connectionStatus (checkApiHealth (Resolved r) s) = Connected \<and>
      error (checkApiHealth (Resolved r) s) = '''') \<and>
   (status r < 200 \<or> 299 < status r \<longrightarrow>
      connectionStatus (checkApiHealth (Resolved r) s) = Disconnected \<and>
      disabled (checkApiHealth (Resolved r) s) \<and>
      error (checkApiHealth (Resolved r) s)
        = ''API is not responding. Please check if the server is running on the correct port.'') \<and>
   connectionStatus (checkApiHealth (Rejected e) s) = Disconnected \<and>
   disabled (checkApiHealth (Rejected e) s) \<and>
   error (checkApiHealth (Rejected e) s) \<noteq> '''' \<and>
   error (checkApiHealth (Rejected e) s)
     \<noteq> ''API is not responding. Please check if the server is running on the correct port.''"
  by (cases e) (simp add: checkApiHealth_def checkApiHealth_start_def ok_def disabled_def)

theorem health_probe_outcomes_witness:
  "connectionStatus (checkApiHealth (Resolved \<lparr>status = 204, body = None\<rparr>)
     ((initial ''http://localhost:8080'')\<lparr>error := ''old'', connectionStatus := Disconnected\<rparr>))
     = Connected \<and>
   error (checkApiHealth (Resolved \<lparr>status = 204, body = None\<rparr>)
     ((initial ''http://localhost:8080'')\<lparr>error := ''old'', connectionStatus := Disconnected\<rparr>))
     = '''' \<and>
   connectionStatus (checkApiHealth (Resolved \<lparr>status = 503, body = None\<rparr>)
     ((initial ''http://localhost:8080'')\<lparr>connectionStatus := Connected\<rparr>)) = Disconnected \<and>
   error (checkApiHealth (Resolved \<lparr>status = 503, body = None\<rparr>)
     ((initial ''http://localhost:8080'')\<lparr>connectionStatus := Connected\<rparr>))
     = ''API is not responding. Please check if the server is running on the correct port.'' \<and>
   error (checkApiHealth (Rejected (Error ''TypeError'' ''Failed to fetch''))
     ((initial ''http://localhost:8080'')\<lparr>connectionStatus := Connected\<rparr>))
     = ''CORS Error: Unable to connect to API. Please ensure CORS is configured on your server and it'' @ [CHR 0x27] @ ''s running on the correct port.'' \<and>
   error (checkApiHealth (Rejected (Error ''AbortError'' ''The operation was aborted.''))
     ((initial ''http://localhost:8080'')\<lparr>connectionStatus := Connected\<rparr>))
     = ''Unable to connect to API. Please check if the server is running.''"
  using health_probe_outcomes
    [of "(initial ''http://localhost:8080'')\<lparr>error := ''old'', connectionStatus := Disconnected\<rparr>"
        "\<lparr>status = 204, body = None\<rparr>" "Error ''TypeError'' ''Failed to fetch''"]
    health_probe_outcomes
    [of "(initial ''http://localhost:8080'')\<lparr>connectionStatus := Connected\<rparr>"
        "\<lparr>status = 503, body = None\<rparr>" "Error ''TypeError'' ''Failed to fetch''"]
  by (simp add: checkApiHealth_def checkApiHealth_start_def ok_def str_includes_def sublist_code)

section \<open>Error responses\<close>

lemma calculateCoins_sent:
  "snd (calculateCoins_start parseFloat s) \<noteq> None \<Longrightarrow>
   calculateCoins parseFloat out s
     = calculateCoins_settle out (s\<lparr>loading := True, error := '''', result := Null\<rparr>)"
  by (auto simp add: calculateCoins_def calculateCoins_start_def Let_def split: if_splits)

text \<open>
  C5, as the claim states it, fails for a message that is present and empty: \<open>||\<close> takes the
  fallback for every falsy value, so the error is the generic text and not the message.
\<close>

theorem calculate_error_response_counterexample:
  "snd (calculateCoins_start (\<lambda>t. Finite 1)
     ((initial ''http://localhost:8080'')\<lparr>amount := ''1'', selectedDenominations := [1]\<rparr>))
     \<noteq> None \<and>
   error (calculateCoins (\<lambda>t. Finite 1)
     (Resolved \<lparr>status = 400, body = Some (ErrorResponse (Some ''invalid_amount'') (Some ''''))\<rparr>)
     ((initial ''http://localhost:8080'')\<lparr>amount := ''1'', selectedDenominations := [1]\<rparr>))
     = ''An error occurred while calculating.'' \<and>
   error (calculateCoins (\<lambda>t. Finite 1)
     (Resolved \<lparr>status = 400, body = Some (ErrorResponse (Some ''invalid_amount'') (Some ''''))\<rparr>)
     ((initial ''http://localhost:8080'')\<lparr>amount := ''1'', selectedDenominations := [1]\<rparr>))
     \<noteq> ''''"
  by (simp add: calculateCoins_def calculateCoins_start_def calculateCoins_settle_def
      initial_def isNaN_def ok_def)

text \<open>
  C5, amended. When the request has been sent and the response has a status outside 200 to
  299 and a body of the \<open>ErrorResponse\<close> shape, the error is the message itself when the
  message is present and not empty, and the generic text when it is absent or empty; the
  result is \<open>null\<close>, the loading flag is off, the error is shown and no result is shown.
\<close>

theorem calculate_error_response:
  assumes "snd (calculateCoins_start parseFloat s) \<noteq> None"
    and "status r < 200 \<or> 299 < status r"
    and "body r = Some (ErrorResponse e m)"
  shows "error (calculateCoins parseFloat (Resolved r) s)
           = (case m of
                None \<Rightarrow> ''An error occurred while calculating.''
              | Some t \<Rightarrow> if t = '''' then ''An error occurred while calculating.'' else t) \<and>
         result (calculateCoins parseFloat (Resolved r) s) = Null \<and>
         loading (calculateCoins parseFloat (Resolved r) s) = False \<and>
         error_box (render formatCurrency (calculateCoins parseFloat (Resolved r) s))
           = Some (error (calculateCoins parseFloat (Resolved r) s)) \<and>
         result_box (render formatCurrency (calculateCoins parseFloat (Resolved r) s)) = None"
  using assms(2,3)
  by (cases m)
     (auto simp add: calculateCoins_sent [OF assms(1)] calculateCoins_settle_def ok_def render_def)

theorem calculate_error_response_witness:
  "snd (calculateCoins_start (\<lambda>t. if t = ''0'' then Finite 0 else NaN)
     ((initial ''http://localhost:8080'')\<lparr>amount := ''0'', selectedDenominations := [0.01]\<rparr>))
     = Some (POST ''http://localhost:8080/api/v1/coin-change/calculate''
               (CCRequest (Finite 0) [0.01])) \<and>
   error (calculateCoins (\<lambda>t. if t = ''0'' then Finite 0 else NaN)
     (Resolved \<lparr>status = 400,
                body = Some (ErrorResponse (Some ''invalid_amount'') (Some ''Amount must be positive''))\<rparr>)
     ((initial ''http://localhost:8080'')\<lparr>amount := ''0'', selectedDenominations := [0.01]\<rparr>))
     = ''Amount must be positive'' \<and>
   error_box (render (\<lambda>v. ''$'') (calculateCoins (\<lambda>t. if t = ''0'' then Finite 0 else NaN)
     (Resolved \<lparr>status = 400,
                body = Some (ErrorResponse (Some ''invalid_amount'') (Some ''Amount must be positive''))\<rparr>)
     ((initial ''http://localhost:8080'')\<lparr>amount := ''0'', selectedDenominations := [0.01]\<rparr>)))
     = Some ''Amount must be positive'' \<and>
   result_box (render (\<lambda>v. ''$'') (calculateCoins (\<lambda>t. if t = ''0'' then Finite 0 else NaN)
     (Resolved \<lparr>status = 400,
                body = Some (ErrorResponse (Some ''invalid_amount'') (Some ''Amount must be positive''))\<rparr>)
     ((initial ''http://localhost:8080'')\<lparr>amount := ''0'', selectedDenominations := [0.01]\<rparr>)))
     = None"
proof -
  have sent: "snd (calculateCoins_start (\<lambda>t. if t = ''0'' then Finite 0 else NaN)
     ((initial ''http://localhost:8080'')\<lparr>amount := ''0'', selectedDenominations := [0.01]\<rparr>))
     = Some (POST ''http://localhost:8080/api/v1/coin-change/calculate''
               (CCRequest (Finite 0) [0.01]))"
    by (simp add: calculateCoins_start_def initial_def isNaN_def)
  then have "snd (calculateCoins_start (\<lambda>t. if t = ''0'' then Finite 0 else NaN)
     ((initial ''http://localhost:8080'')\<lparr>amount := ''0'', selectedDenominations := [0.01]\<rparr>))
     \<noteq> None"
    by simp
  from calculate_error_response [OF this,
      of "\<lparr>status = 400,
           body = Some (ErrorResponse (Some ''invalid_amount'') (Some ''Amount must be positive''))\<rparr>"
         "Some ''invalid_amount''" "Some ''Amount must be positive''" "\<lambda>v. ''$''"]
    sent
  show ?thesis by simp
qed

section \<open>What a failed validation leaves unchanged\<close>

text \<open>
  C10. When the local validation fails, the first part of \<open>calculateCoins\<close> sends nothing
  and changes the error only: the state is the old one with a new, non-empty error, so the
  result, the amount text, the selected list and the loading flag are the old ones and a
  result shown before is still shown. When the validation passes, a request is sent and the
  state in which it is sent has the result \<open>null\<close>, the loading flag on and no result
  shown.
\<close>

theorem validation_failure_frame:
  "(amount s = '''' \<or> isNaN (parseFloat (amount s)) \<or> lt (parseFloat (amount s)) (Finite 0)
      \<or> lt (Finite 10000) (parseFloat (amount s)) \<or> selectedDenominations s = []
    \<longrightarrow> snd (calculateCoins_start parseFloat s) = None \<and>
        fst (calculateCoins_start parseFloat s)
          = s\<lparr>error := error (fst (calculateCoins_start parseFloat s))\<rparr> \<and>
        error (fst (calculateCoins_start parseFloat s)) \<noteq> '''' \<and>
        result (fst (calculateCoins_start parseFloat s)) = result s \<and>
        amount (fst (calculateCoins_start parseFloat s)) = amount s \<and>
        selectedDenominations (fst (calculateCoins_start parseFloat s)) = selectedDenominations s \<and>
        loading (fst (calculateCoins_start parseFloat s)) = loading s \<and>
        result_box (render formatCurrency (fst (calculateCoins_start parseFloat s)))
          = result_box (render formatCurrency s)) \<and>
   (\<not> (amount s = '''' \<or> isNaN (parseFloat (amount s)) \<or> lt (parseFloat (amount s)) (Finite 0)
      \<or> lt (Finite 10000) (parseFloat (amount s)) \<or> selectedDenominations s = [])
    \<longrightarrow> snd (calculateCoins_start parseFloat s) \<noteq> None \<and>
        result (fst (calculateCoins_start parseFloat s)) = Null \<and>
        loading (fst (calculateCoins_start parseFloat s)) = True \<and>
        result_box (render formatCurrency (fst (calculateCoins_start parseFloat s))) = None)"
  by (auto simp add: calculateCoins_start_def Let_def render_def)

theorem validation_failure_frame_witness:
  "lt (Finite 10000) ((\<lambda>t. if t = ''20000'' then Finite 20000 else Finite 5) ''20000'') \<and>
   calculateCoins_start (\<lambda>t. if t = ''20000'' then Finite 20000 else Finite 5)
     \<lparr>amount = ''20000'', selectedDenominations = [1],
      result = Result \<lparr>coins = [\<lparr>denomination = 1, count = 3\<rparr>], totalCoins = 3\<rparr>,
      error = '''', loading = False, apiUrl = ''http://localhost:8080'',
      connectionStatus = Connected\<rparr>
   = (\<lparr>amount = ''20000'', selectedDenominations = [1],
       result = Result \<lparr>coins = [\<lparr>denomination = 1, count = 3\<rparr>], totalCoins = 3\<rparr>,
       error = ''Please enter a valid amount between 0 and 10000.'', loading = False,
       apiUrl = ''http://localhost:8080'', connectionStatus = Connected\<rparr>, None) \<and>
   calculateCoins_start (\<lambda>t. if t = ''20000'' then Finite 20000 else Finite 5)
     \<lparr>amount = ''5'', selectedDenominations = [1],
      result = Result \<lparr>coins = [\<lparr>denomination = 1, count = 3\<rparr>], totalCoins = 3\<rparr>,
      error = '''', loading = False, apiUrl = ''http://localhost:8080'',
      connectionStatus = Connected\<rparr>
   = (\<lparr>amount = ''5'', selectedDenominations = [1], result = Null, error = '''',
       loading = True, apiUrl = ''http://localhost:8080'', connectionStatus = Connected\<rparr>,
      Some (POST ''http://localhost:8080/api/v1/coin-change/calculate''
              (CCRequest (Finite 5) [1])))"
  using validation_failure_frame
    [of "\<lparr>amount = ''20000'', selectedDenominations = [1],
          result = Result \<lparr>coins = [\<lparr>denomination = 1, count = 3\<rparr>], totalCoins = 3\<rparr>,
          error = '''', loading = False, apiUrl = ''http://localhost:8080'',
          connectionStatus = Connected\<rparr>"
        "\<lambda>t. if t = ''20000'' then Finite 20000 else Finite 5" "\<lambda>v. ''$''"]
    validation_failure_frame
    [of "\<lparr>amount = ''5'', selectedDenominations = [1],
          result = Result \<lparr>coins = [\<lparr>denomination = 1, count = 3\<rparr>], totalCoins = 3\<rparr>,
          error = '''', loading = False, apiUrl = ''http://localhost:8080'',
          connectionStatus = Connected\<rparr>"
        "\<lambda>t. if t = ''20000'' then Finite 20000 else Finite 5" "\<lambda>v. ''$''"]
  by (simp add: calculateCoins_start_def isNaN_def)

section \<open>Requests in flight\<close>

lemma probe_fields:
  "loading (ui (probe w)) = loading (ui w)"
  "calculate_pending (probe w) = calculate_pending w"
  "connectionStatus (ui (probe w)) = Checking"
  "apiUrl (ui (probe w)) = apiUrl (ui w)"
  "sent (probe w) = GET (apiUrl (ui w) @ ''/api/v1/coin-change/health'') # sent w"
  "health_pending (probe w) = Suc (health_pending w)"
  by (simp_all add: probe_def checkApiHealth_start_def)

lemma checkApiHealth_settle_loading: "loading (checkApiHealth_settle out s) = loading s"
  by (induction out s rule: checkApiHealth_settle.induct) simp_all

lemma calculateCoins_catch_fields:
  "loading (calculateCoins_catch e s) = loading s"
  "connectionStatus (calculateCoins_catch e s) = connectionStatus s"
  by (induction e s rule: calculateCoins_catch.induct) simp_all

lemma calculateCoins_settle_fields:
  "loading (calculateCoins_settle out s) = False"
  "connectionStatus (calculateCoins_settle out s) = connectionStatus s"
  by (cases out;
      auto simp add: calculateCoins_settle_def calculateCoins_catch_fields
        split: sum.splits option.splits if_splits)+

lemma calculateCoins_start_fields:
  "connectionStatus (fst (calculateCoins_start parseFloat s)) = connectionStatus s"
  "snd (calculateCoins_start parseFloat s) = None \<Longrightarrow>
     loading (fst (calculateCoins_start parseFloat s)) = loading s"
  "snd (calculateCoins_start parseFloat s) \<noteq> None \<Longrightarrow>
     loading (fst (calculateCoins_start parseFloat s))"
  by (auto simp add: calculateCoins_start_def Let_def split: if_splits)

text \<open>
  The invariant: the number of calculate requests in flight is 1 while the loading flag is
  on and 0 while it is off. Every event keeps it.
\<close>

lemma step_keeps_single:
  assumes "step parseFloat e w = Some w'"
    and "calculate_pending w = (if loading (ui w) then 1 else 0)"
  shows "calculate_pending w' = (if loading (ui w') then 1 else 0)"
proof (cases e)
  case ClickCalculate
  show ?thesis
  proof (cases "snd (calculateCoins_start parseFloat (ui w))")
    case None
    with assms ClickCalculate calculateCoins_start_fields(2) [of parseFloat "ui w"]
    show ?thesis
      by (auto simp add: disabled_def split: if_splits prod.splits)
  next
    case (Some call)
    with assms ClickCalculate calculateCoins_start_fields(3) [of parseFloat "ui w"]
    show ?thesis
      by (auto simp add: disabled_def split: if_splits prod.splits)
  qed
next
  case (CalculateSettled out)
  with assms show ?thesis
    by (auto simp add: calculateCoins_settle_fields split: if_splits)
next
  case (HealthSettled out)
  with assms show ?thesis
    by (auto simp add: checkApiHealth_settle_loading split: if_splits)
qed (use assms in \<open>auto simp add: probe_fields handleDenominationChange_def
       selectAllDenominations_def clearAllDenominations_def clearForm_def split: if_splits\<close>)

lemma run_keeps_single:
  "run parseFloat es w = Some w' \<Longrightarrow>
   calculate_pending w = (if loading (ui w) then 1 else 0) \<Longrightarrow>
   calculate_pending w' = (if loading (ui w') then 1 else 0)"
proof (induction es arbitrary: w)
  case Nil
  then show ?case by simp
next
  case (Cons e es)
  then obtain w1 where w1: "step parseFloat e w = Some w1" "run parseFloat es w1 = Some w'"
    by (auto split: option.splits)
  show ?case
    by (rule Cons.IH [OF w1(2) step_keeps_single [OF w1(1) Cons.prems(2)]])
qed

lemma mount_single:
  "calculate_pending (mount url) = (if loading (ui (mount url)) then 1 else 0)"
  by (simp add: mount_def probe_fields initial_def)

lemma step_more_pending:
  assumes "step parseFloat e w = Some w'"
    and "calculate_pending w < calculate_pending w'"
  shows "e = ClickCalculate \<and> \<not> disabled (ui w) \<and>
         calculate_pending w' = Suc (calculate_pending w)"
  using assms
  by (cases e) (auto simp add: probe_fields split: if_splits prod.splits option.splits)

text \<open>
  C7. In every world the component reaches from its first render, at most one calculate
  request is in flight, and one is in flight exactly while the loading flag is on. The
  button is disabled exactly when the loading flag is on or the connection state is
  disconnected, a click on the disabled button does not happen, and an event that puts a
  further calculate request in flight is a click on the button in a state where the
  loading flag is off, the connection state is not disconnected and no calculate request is
  in flight.
\<close>

theorem single_calculate_in_flight:
  assumes "run parseFloat es (mount url) = Some w"
  shows "calculate_pending w \<le> 1 \<and>
         (loading (ui w) \<longleftrightarrow> calculate_pending w = 1) \<and>
         (disabled (ui w) \<longleftrightarrow> loading (ui w) \<or> connectionStatus (ui w) = Disconnected) \<and>
         (disabled (ui w) \<longrightarrow> step parseFloat ClickCalculate w = None) \<and>
         (\<forall>e w'. step parseFloat e w = Some w' \<and> calculate_pending w < calculate_pending w'
            \<longrightarrow> e = ClickCalculate \<and> \<not> loading (ui w) \<and>
                connectionStatus (ui w) \<noteq> Disconnected \<and>
                calculate_pending w = 0 \<and> calculate_pending w' = 1)"
proof -
  have inv: "calculate_pending w = (if loading (ui w) then 1 else 0)"
    by (rule run_keeps_single [OF assms mount_single])
  have "e = ClickCalculate \<and> \<not> loading (ui w) \<and> connectionStatus (ui w) \<noteq> Disconnected \<and>
        calculate_pending w = 0 \<and> calculate_pending w' = 1"
    if "step parseFloat e w = Some w'" "calculate_pending w < calculate_pending w'" for e w'
    using step_more_pending [OF that] inv by (auto simp add: disabled_def split: if_splits)
  with inv show ?thesis
    by (auto simp add: disabled_def split: if_splits)
qed

theorem single_calculate_in_flight_witness:
  "run (\<lambda>t. if t = ''0.41'' then Finite 0.41 else NaN)
     [HealthSettled (Resolved \<lparr>status = 200, body = None\<rparr>), AmountInput ''0.41'',
      Toggle 0.20 True, Toggle 0.01 True, ClickCalculate]
     (mount ''http://localhost:8080'')
   = Some \<lparr>ui = \<lparr>amount = ''0.41'', selectedDenominations = [0.01, 0.20], result = Null,
                  error = '''', loading = True, apiUrl = ''http://localhost:8080'',
                  connectionStatus = Connected\<rparr>,
            sent = [POST ''http://localhost:8080/api/v1/coin-change/calculate''
                      (CCRequest (Finite 0.41) [0.01, 0.20]),
                    GET ''http://localhost:8080/api/v1/coin-change/health''],
            calculate_pending = 1, health_pending = 0\<rparr> \<and>
   step (\<lambda>t. if t = ''0.41'' then Finite 0.41 else NaN) ClickCalculate
     \<lparr>ui = \<lparr>amount = ''0.41'', selectedDenominations = [0.01, 0.20], result = Null,
             error = '''', loading = True, apiUrl = ''http://localhost:8080'',
             connectionStatus = Connected\<rparr>,
       sent = [POST ''http://localhost:8080/api/v1/coin-change/calculate''
                 (CCRequest (Finite 0.41) [0.01, 0.20]),
               GET ''http://localhost:8080/api/v1/coin-change/health''],
       calculate_pending = 1, health_pending = 0\<rparr> = None"
proof -
  have r: "run (\<lambda>t. if t = ''0.41'' then Finite 0.41 else NaN)
     [HealthSettled (Resolved \<lparr>status = 200, body = None\<rparr>), AmountInput ''0.41'',
      Toggle 0.20 True, Toggle 0.01 True, ClickCalculate]
     (mount ''http://localhost:8080'')
   = Some \<lparr>ui = \<lparr>amount = ''0.41'', selectedDenominations = [0.01, 0.20], result = Null,
                  error = '''', loading = True, apiUrl = ''http://localhost:8080'',
                  connectionStatus = Connected\<rparr>,
            sent = [POST ''http://localhost:8080/api/v1/coin-change/calculate''
                      (CCRequest (Finite 0.41) [0.01, 0.20]),
                    GET ''http://localhost:8080/api/v1/coin-change/health''],
            calculate_pending = 1, health_pending = 0\<rparr>"
    by (simp add: mount_def probe_def checkApiHealth_start_def initial_def ok_def disabled_def
        handleDenominationChange_def calculateCoins_start_def isNaN_def)
  from single_calculate_in_flight [OF r] r show ?thesis
    by (simp add: disabled_def)
qed

lemma checking_handlers:
  "connectionStatus (handleDenominationChange d c s) = connectionStatus s"
  "connectionStatus (selectAllDenominations s) = connectionStatus s"
  "connectionStatus (clearAllDenominations s) = connectionStatus s"
  "connectionStatus (clearForm s) = connectionStatus s"
  by (simp_all add: handleDenominationChange_def selectAllDenominations_def
      clearAllDenominations_def clearForm_def)

lemma step_keeps_checking:
  assumes "step parseFloat e w = Some w'" and "\<not> settles_health e"
    and "connectionStatus (ui w) = Checking"
  shows "connectionStatus (ui w') = Checking"
proof (cases e)
  case ClickCalculate
  with assms calculateCoins_start_fields(1) [of parseFloat "ui w"] show ?thesis
    by (auto split: if_splits prod.splits option.splits)
qed (use assms in \<open>auto simp add: probe_fields checking_handlers calculateCoins_settle_fields
       split: if_splits\<close>)

lemma run_keeps_checking:
  "run parseFloat es w = Some w' \<Longrightarrow> filter settles_health es = [] \<Longrightarrow>
   connectionStatus (ui w) = Checking \<Longrightarrow> connectionStatus (ui w') = Checking"
proof (induction es arbitrary: w)
  case Nil
  then show ?case by simp
next
  case (Cons e es)
  then obtain w1 where w1: "step parseFloat e w = Some w1" "run parseFloat es w1 = Some w'"
    by (auto split: option.splits)
  from Cons.prems(2) have e: "\<not> settles_health e" and es: "filter settles_health es = []"
    by (auto split: if_splits)
  show ?case
    by (rule Cons.IH [OF w1(2) es step_keeps_checking [OF w1(1) e Cons.prems(3)]])
qed

text \<open>
  C8. Setting the base URL to a value that differs from the current one sends exactly one
  call, the health probe of the new URL, puts one more probe in flight, and leaves the
  connection state at checking whatever it was before; the state stays at checking through
  every run of events in which no probe settles.
\<close>

theorem url_change_probes_once:
  assumes "v \<noteq> apiUrl (ui w)"
  shows "\<exists>w'. step parseFloat (UrlInput v) w = Some w' \<and>
           apiUrl (ui w') = v \<and>
           sent w' = GET (v @ ''/api/v1/coin-change/health'') # sent w \<and>
           health_pending w' = Suc (health_pending w) \<and>
           connectionStatus (ui w') = Checking \<and>
           (\<forall>es w''. filter settles_health es = [] \<and> run parseFloat es w' = Some w''
              \<longrightarrow> connectionStatus (ui w'') = Checking)"
  using assms by (auto simp add: probe_fields intro: run_keeps_checking)

theorem url_change_probes_once_witness:
  "''http://localhost:9090''
     \<noteq> apiUrl (ui \<lparr>ui = (initial ''http://localhost:8080'')\<lparr>connectionStatus := Connected\<rparr>,
                     sent = [GET ''http://localhost:8080/api/v1/coin-change/health''],
                     calculate_pending = 0, health_pending = 0\<rparr>) \<and>
   step (\<lambda>t. NaN) (UrlInput ''http://localhost:9090'')
     \<lparr>ui = (initial ''http://localhost:8080'')\<lparr>connectionStatus := Connected\<rparr>,
      sent = [GET ''http://localhost:8080/api/v1/coin-change/health''],
      calculate_pending = 0, health_pending = 0\<rparr>
   = Some \<lparr>ui = (initial ''http://localhost:9090''),
            sent = [GET ''http://localhost:9090/api/v1/coin-change/health'',
                    GET ''http://localhost:8080/api/v1/coin-change/health''],
            calculate_pending = 0, health_pending = 1\<rparr> \<and>
   connectionStatus (initial ''http://localhost:9090'') = Checking"
  using url_change_probes_once
    [of "''http://localhost:9090''"
        "\<lparr>ui = (initial ''http://localhost:8080'')\<lparr>connectionStatus := Connected\<rparr>,
          sent = [GET ''http://localhost:8080/api/v1/coin-change/health''],
          calculate_pending = 0, health_pending = 0\<rparr>"
        "\<lambda>t. NaN"]
  by (simp add: probe_def checkApiHealth_start_def initial_def)

section \<open>Successful responses\<close>









end
